theory Spec2Isabelle
  imports Main "HOL-Library.Sublist"
begin

section \<open>JavaScript values that are thrown and caught\<close>

text \<open>
  A value that a promise rejects with or that a \<^verbatim>\<open>catch\<close> clause receives.
  \<open>JsError name message\<close> is an instance of \<^verbatim>\<open>Error\<close>; \<open>JsString s\<close> is a
  primitive string; \<open>JsOther r\<close> is any other value (for instance the
  \<^verbatim>\<open>ProgressEvent\<close> that \<^verbatim>\<open>reader.onerror\<close> passes on), carried with the
  text \<open>r\<close> that \<^verbatim>\<open>String(...)\<close> gives for it.
\<close>

datatype js_value = JsError string string | JsString string | JsOther string

fun instanceof_Error :: "js_value \<Rightarrow> bool" where
  "instanceof_Error (JsError n m) = True"
| "instanceof_Error (JsString s) = False"
| "instanceof_Error (JsOther r) = False"

text \<open>
  \<^verbatim>\<open>error.message\<close>. The sources read it only after \<^verbatim>\<open>instanceof Error\<close> has
  succeeded; on the other values it is given as the empty string.
\<close>

fun message :: "js_value \<Rightarrow> string" where
  "message (JsError n m) = m"
| "message (JsString s) = []"
| "message (JsOther r) = []"

text \<open>\<^verbatim>\<open>String(v)\<close>; for an \<^verbatim>\<open>Error\<close> this is \<^verbatim>\<open>Error.prototype.toString\<close>.\<close>

fun js_String :: "js_value \<Rightarrow> string" where
  "js_String (JsError n m) = (if n = [] then m else if m = [] then n else n @ '': '' @ m)"
| "js_String (JsString s) = s"
| "js_String (JsOther r) = r"

section \<open>services/geminiService.ts\<close>

text \<open>
  The two encoded images of \<^verbatim>\<open>GenerateImageParams\<close>. \<open>data\<close> is what
  \<^verbatim>\<open>fileToBase64\<close> stores there: \<open>None\<close> is JavaScript's \<^verbatim>\<open>undefined\<close>, which
  \<^verbatim>\<open>result.split(',')[1]\<close> yields for a data URL without a comma.
\<close>

record encoded =
  data :: "string option"
  mimeType :: string

datatype request_part = InlinePart "string option" string | TextPart string

text \<open>The \<^verbatim>\<open>Modality\<close> enumeration of the client library; the sources use \<^verbatim>\<open>IMAGE\<close>.\<close>

datatype modality = TEXT | IMAGE | AUDIO

record gen_request =
  model :: string
  contents :: "request_part list"
  responseModalities :: "modality list"

text \<open>
  The response of \<^verbatim>\<open>ai.models.generateContent\<close>, with the optional fields that
  \<^verbatim>\<open>response.candidates?.[0]?.content?.parts\<close> guards against. The inline data of a
  response part has the two string fields the source reads from it.
\<close>

record blob =
  blob_data :: string
  blob_mimeType :: string

record part =
  inlineData :: "blob option"
  part_text :: "string option"

record content =
  parts :: "part list option"

record candidate =
  content :: "content option"

record response =
  candidates :: "candidate list option"

text \<open>\<^verbatim>\<open>response.candidates?.[0]?.content?.parts || []\<close>\<close>

definition response_parts :: "response \<Rightarrow> part list" where
  "response_parts r =
     (case candidates r of
        None \<Rightarrow> []
      | Some cs \<Rightarrow>
          (case cs of
             [] \<Rightarrow> []
           | c # rest \<Rightarrow>
               (case content c of
                  None \<Rightarrow> []
                | Some ct \<Rightarrow> (case parts ct of None \<Rightarrow> [] | Some ps \<Rightarrow> ps))))"

text \<open>The \<^verbatim>\<open>for (const part of ...)\<close> loop: it returns at the first part with inline data.\<close>

fun scan_parts :: "part list \<Rightarrow> string option" where
  "scan_parts [] = None"
| "scan_parts (p # ps) =
     (case inlineData p of
        Some b \<Rightarrow> Some (''data:'' @ blob_mimeType b @ '';base64,'' @ blob_data b)
      | None \<Rightarrow> scan_parts ps)"

text \<open>The argument of \<^verbatim>\<open>ai.models.generateContent\<close>.\<close>

definition build_request :: "encoded \<Rightarrow> encoded \<Rightarrow> string \<Rightarrow> gen_request" where
  "build_request baseImage logoImage prompt =
     \<lparr> model = ''gemini-2.5-flash-image'',
       contents =
         [InlinePart (data baseImage) (mimeType baseImage),
          InlinePart (data logoImage) (mimeType logoImage),
          TextPart prompt],
       responseModalities = [IMAGE] \<rparr>"

text \<open>
  The \<^verbatim>\<open>catch (error)\<close> clause: the value the returned promise rejects with. (The
  \<^verbatim>\<open>console.error\<close> line writes to the console and changes nothing else.)
\<close>

definition generateEditedImage_catch :: "js_value \<Rightarrow> js_value" where
  "generateEditedImage_catch e =
     (if instanceof_Error e then JsString (message e)
      else JsString ''An unknown error occurred while generating the image.'')"

text \<open>
  The body of the \<^verbatim>\<open>try\<close> after the \<^verbatim>\<open>await\<close>: the remote call has either thrown
  (\<open>Inl\<close>) or returned a response (\<open>Inr\<close>). The result is \<open>Inr\<close> the string the
  promise resolves to, or \<open>Inl\<close> the value it rejects with.
\<close>

definition generateEditedImage_resume :: "js_value + response \<Rightarrow> js_value + string" where
  "generateEditedImage_resume outcome =
     (case outcome of
        Inl e \<Rightarrow> Inl (generateEditedImage_catch e)
      | Inr resp \<Rightarrow>
          (case scan_parts (response_parts resp) of
             Some uri \<Rightarrow> Inr uri
           | None \<Rightarrow>
               Inl (generateEditedImage_catch
                      (JsError ''Error'' ''No image was generated in the response.''))))"

text \<open>
  \<^verbatim>\<open>generateEditedImage\<close>, with the remote endpoint as the parameter
  \<open>generateContent\<close>. The first component is the list of requests sent to the endpoint
  during the call, the second the settlement of the returned promise.
\<close>

definition generateEditedImage ::
  "(gen_request \<Rightarrow> js_value + response) \<Rightarrow> encoded \<Rightarrow> encoded \<Rightarrow> string
     \<Rightarrow> gen_request list \<times> (js_value + string)" where
  "generateEditedImage generateContent baseImage logoImage prompt =
     (let req = build_request baseImage logoImage prompt
      in ([req], generateEditedImage_resume (generateContent req)))"

section \<open>components/ImageUploader.tsx\<close>

text \<open>
  A \<^verbatim>\<open>File\<close>: its name, its declared media type (\<^verbatim>\<open>file.type\<close>) and its declared
  size in bytes (\<^verbatim>\<open>file.size\<close>). Its bytes are seen only through the file reader,
  which is a parameter of the functions that read.
\<close>

record "file" =
  file_name :: string
  file_type :: string
  file_size :: nat

text \<open>
  \<^verbatim>\<open>ImageFile\<close>. \<open>preview\<close> is \<^verbatim>\<open>reader.result\<close> when \<^verbatim>\<open>onloadend\<close> fires:
  the data URL, or \<^verbatim>\<open>null\<close> (\<open>None\<close>) when the read failed.
\<close>

record imageFile =
  "file" :: "file"
  preview :: "string option"

text \<open>
  What one \<^verbatim>\<open>ImageUploader\<close> acts on: the alerts shown, the files handed to
  \<^verbatim>\<open>reader.readAsDataURL\<close>, the value of its hidden input element, and the state of
  the parent component, which it changes only through \<^verbatim>\<open>onImageUpload\<close>.
\<close>

record 'p uploader =
  alerts :: "string list"
  reads :: "file list"
  inputValue :: string
  owner :: 'p

definition oversize_alert :: string where
  "oversize_alert = ''File size exceeds 4MB. Please choose a smaller file.''"

text \<open>
  \<^verbatim>\<open>handleFileChange\<close>. \<open>candidate\<close> is \<^verbatim>\<open>event.target.files?.[0]\<close>, \<open>readAsDataURL\<close>
  the outcome of reading a file, \<open>onImageUpload\<close> the callback of the parent. The
  \<^verbatim>\<open>onloadend\<close> callback is run as part of the same step.
\<close>

definition handleFileChange ::
  "(file \<Rightarrow> string option) \<Rightarrow> (imageFile option \<Rightarrow> 'p \<Rightarrow> 'p) \<Rightarrow> file option
     \<Rightarrow> 'p uploader \<Rightarrow> 'p uploader" where
  "handleFileChange readAsDataURL onImageUpload candidate w =
     (case candidate of
        None \<Rightarrow> w
      | Some f \<Rightarrow>
          if file_size f > 4 * 1024 * 1024
          then w\<lparr>alerts := alerts w @ [oversize_alert]\<rparr>
          else w\<lparr>reads := reads w @ [f],
                 owner := onImageUpload (Some \<lparr>file = f, preview = readAsDataURL f\<rparr>) (owner w)\<rparr>)"

text \<open>\<^verbatim>\<open>handleDrop\<close>; \<open>candidate\<close> is \<^verbatim>\<open>event.dataTransfer.files?.[0]\<close>.\<close>

definition handleDrop ::
  "(file \<Rightarrow> string option) \<Rightarrow> (imageFile option \<Rightarrow> 'p \<Rightarrow> 'p) \<Rightarrow> file option
     \<Rightarrow> 'p uploader \<Rightarrow> 'p uploader" where
  "handleDrop readAsDataURL onImageUpload candidate w =
     (case candidate of
        None \<Rightarrow> w
      | Some f \<Rightarrow>
          if prefix ''image/'' (file_type f)
          then (if file_size f > 4 * 1024 * 1024
                then w\<lparr>alerts := alerts w @ [oversize_alert]\<rparr>
                else w\<lparr>reads := reads w @ [f],
                       owner := onImageUpload (Some \<lparr>file = f, preview = readAsDataURL f\<rparr>)
                                  (owner w)\<rparr>)
          else w)"

text \<open>\<^verbatim>\<open>handleRemove\<close>\<close>

definition handleRemove :: "(imageFile option \<Rightarrow> 'p \<Rightarrow> 'p) \<Rightarrow> 'p uploader \<Rightarrow> 'p uploader" where
  "handleRemove onImageUpload w = w\<lparr>owner := onImageUpload None (owner w), inputValue := []\<rparr>"

text \<open>\<^verbatim>\<open>s.split(',')\<close>\<close>

fun split_comma :: "string \<Rightarrow> string list" where
  "split_comma [] = [[]]"
| "split_comma (c # cs) =
     (if c = CHR '','' then [] # split_comma cs
      else (case split_comma cs of [] \<Rightarrow> [[c]] | w # ws \<Rightarrow> (c # w) # ws))"

text \<open>The \<^verbatim>\<open>accept\<close> attribute of the hidden file input.\<close>

definition accept :: string where
  "accept = ''image/png, image/jpeg, image/webp''"

text \<open>A string without its leading and trailing blanks.\<close>

definition trim :: "string \<Rightarrow> string" where
  "trim s = rev (dropWhile (\<lambda>c. c = CHR '' '') (rev (dropWhile (\<lambda>c. c = CHR '' '') s)))"

text \<open>
  Modelled from the spec: the file dialog that reads \<^verbatim>\<open>accept\<close> is the browser's and
  is not part of the sources. The spec has the picker "filtered to PNG/JPEG/WEBP": a file
  passes when its declared type is one of the comma-separated tokens of \<^verbatim>\<open>accept\<close>,
  surrounding blanks removed.
\<close>

definition picker_filter :: "file \<Rightarrow> bool" where
  "picker_filter f = (file_type f \<in> set (map trim (split_comma accept)))"

text \<open>The drop handler takes the candidate in: it starts a read of it.\<close>

definition drop_accepts ::
  "(file \<Rightarrow> string option) \<Rightarrow> (imageFile option \<Rightarrow> 'p \<Rightarrow> 'p) \<Rightarrow> 'p uploader \<Rightarrow> file \<Rightarrow> bool" where
  "drop_accepts readAsDataURL onImageUpload w f =
     (reads (handleDrop readAsDataURL onImageUpload (Some f) w) = reads w @ [f])"

section \<open>App.tsx\<close>

record app_state =
  baseImage :: "imageFile option"
  logoImage :: "imageFile option"
  prompt :: string
  generatedImage :: "string option"
  isLoading :: bool
  error :: "string option"

definition initial_state :: app_state where
  "initial_state =
     \<lparr> baseImage = None, logoImage = None,
       prompt = ''Take the first image of the person. Add the logo from the second image onto their t-shirt. Ensure the person's face and features remain completely unchanged. The logo should look like it's naturally printed on the fabric, following the folds of the shirt.'',
       generatedImage = None, isLoading = False, error = None \<rparr>"

definition setBaseImage :: "imageFile option \<Rightarrow> app_state \<Rightarrow> app_state" where
  "setBaseImage v s = s\<lparr>baseImage := v\<rparr>"

definition setLogoImage :: "imageFile option \<Rightarrow> app_state \<Rightarrow> app_state" where
  "setLogoImage v s = s\<lparr>logoImage := v\<rparr>"

definition setPrompt :: "string \<Rightarrow> app_state \<Rightarrow> app_state" where
  "setPrompt v s = s\<lparr>prompt := v\<rparr>"

definition setGeneratedImage :: "string option \<Rightarrow> app_state \<Rightarrow> app_state" where
  "setGeneratedImage v s = s\<lparr>generatedImage := v\<rparr>"

definition setIsLoading :: "bool \<Rightarrow> app_state \<Rightarrow> app_state" where
  "setIsLoading v s = s\<lparr>isLoading := v\<rparr>"

definition setError :: "string option \<Rightarrow> app_state \<Rightarrow> app_state" where
  "setError v s = s\<lparr>error := v\<rparr>"

text \<open>\<^verbatim>\<open>xs[i]\<close>, \<open>None\<close> for \<^verbatim>\<open>undefined\<close>.\<close>

definition index :: "'a list \<Rightarrow> nat \<Rightarrow> 'a option" where
  "index xs i = (if i < length xs then Some (xs ! i) else None)"

text \<open>
  \<^verbatim>\<open>fileToBase64\<close>, given the outcome of \<^verbatim>\<open>reader.readAsDataURL(file)\<close>: \<open>None\<close> when
  \<^verbatim>\<open>onerror\<close> fires (the promise rejects with the event), \<open>Some result\<close> when
  \<^verbatim>\<open>onload\<close> fires.
\<close>

definition fileToBase64 :: "file \<Rightarrow> string option \<Rightarrow> js_value + encoded" where
  "fileToBase64 f outcome =
     (case outcome of
        None \<Rightarrow> Inl (JsOther ''[object ProgressEvent]'')
      | Some result \<Rightarrow> Inr \<lparr>data = index (split_comma result) 1, mimeType = file_type f\<rparr>)"

definition missing_input :: string where
  "missing_input = ''Please provide a base image, a logo image, and a prompt.''"

text \<open>The body of \<^verbatim>\<open>try\<close> in \<^verbatim>\<open>handleGenerate\<close>: the requests sent and how it ends.\<close>

definition handleGenerate_try ::
  "(file \<Rightarrow> string option) \<Rightarrow> (gen_request \<Rightarrow> js_value + response) \<Rightarrow> file \<Rightarrow> file \<Rightarrow> string
     \<Rightarrow> gen_request list \<times> (js_value + string)" where
  "handleGenerate_try readAsDataURL generateContent baseFile logoFile p =
     (case fileToBase64 baseFile (readAsDataURL baseFile) of
        Inl e \<Rightarrow> ([], Inl e)
      | Inr baseImageBase64 \<Rightarrow>
          (case fileToBase64 logoFile (readAsDataURL logoFile) of
             Inl e \<Rightarrow> ([], Inl e)
           | Inr logoImageBase64 \<Rightarrow>
               generateEditedImage generateContent baseImageBase64 logoImageBase64 p))"

text \<open>
  The end of \<^verbatim>\<open>handleGenerate\<close>: \<^verbatim>\<open>setGeneratedImage(result)\<close> or the \<^verbatim>\<open>catch\<close>
  clause, then \<^verbatim>\<open>finally\<close>.
\<close>

definition handleGenerate_settle :: "js_value + string \<Rightarrow> app_state \<Rightarrow> app_state" where
  "handleGenerate_settle outcome s =
     setIsLoading False
       (case outcome of
          Inr result \<Rightarrow> setGeneratedImage (Some result) s
        | Inl err \<Rightarrow> setError (Some (if instanceof_Error err then message err else js_String err)) s)"

text \<open>
  \<^verbatim>\<open>handleGenerate\<close> run to its end with no other event in between: the final state
  and the requests sent to the remote endpoint.
\<close>

definition handleGenerate ::
  "(file \<Rightarrow> string option) \<Rightarrow> (gen_request \<Rightarrow> js_value + response) \<Rightarrow> app_state
     \<Rightarrow> app_state \<times> gen_request list" where
  "handleGenerate readAsDataURL generateContent s =
     (case baseImage s of
        None \<Rightarrow> (setError (Some missing_input) s, [])
      | Some b \<Rightarrow>
          (case logoImage s of
             None \<Rightarrow> (setError (Some missing_input) s, [])
           | Some l \<Rightarrow>
               if prompt s = [] then (setError (Some missing_input) s, [])
               else
                 (let s1 = setGeneratedImage None (setError None (setIsLoading True s));
                      r = handleGenerate_try readAsDataURL generateContent (file b) (file l) (prompt s)
                  in (handleGenerate_settle (snd r) s1, fst r))))"

text \<open>The \<^verbatim>\<open>disabled\<close> attribute of the button whose \<^verbatim>\<open>onClick\<close> is \<^verbatim>\<open>handleGenerate\<close>.\<close>

definition button_disabled :: "app_state \<Rightarrow> bool" where
  "button_disabled s = (isLoading s \<or> baseImage s = None \<or> logoImage s = None)"

text \<open>
  The result area. A \<^verbatim>\<open>string | null\<close> is truthy when it is neither \<^verbatim>\<open>null\<close> nor the
  empty string. \<open>panels\<close> lists what the four conditional blocks of the JSX render, in
  their order: the loading notice (\<^verbatim>\<open>isLoading &&\<close>), the error box (\<^verbatim>\<open>error &&\<close>),
  the generated image (\<^verbatim>\<open>generatedImage && !isLoading &&\<close>) and the placeholder
  (\<^verbatim>\<open>!generatedImage && !isLoading && !error &&\<close>).
\<close>

definition truthy :: "string option \<Rightarrow> bool" where
  "truthy v = (v \<noteq> None \<and> v \<noteq> Some [])"

datatype panel = LoadingPanel | ErrorPanel string | ResultPanel string | Placeholder

definition panels :: "app_state \<Rightarrow> panel list" where
  "panels s =
     (if isLoading s then [LoadingPanel] else [])
     @ (case error s of None \<Rightarrow> [] | Some m \<Rightarrow> if m = [] then [] else [ErrorPanel m])
     @ (case generatedImage s of
          None \<Rightarrow> []
        | Some u \<Rightarrow> if u = [] \<or> isLoading s then [] else [ResultPanel u])
     @ (if \<not> truthy (generatedImage s) \<and> \<not> isLoading s \<and> \<not> truthy (error s)
        then [Placeholder] else [])"

section \<open>The session as a transition system\<close>

text \<open>
  A call of \<^verbatim>\<open>handleGenerate\<close> that has passed its guard and waits at one of its three
  \<^verbatim>\<open>await\<close>s: for the read of the base file (with the logo file and the prompt it
  captured), for the read of the logo file (with the encoded base image), or for the
  remote call.
\<close>

datatype task =
    AwaitBase "file" "file" string
  | AwaitLogo encoded "file" string
  | AwaitRemote gen_request

fun awaits_remote :: "task \<Rightarrow> bool" where
  "awaits_remote (AwaitRemote req) = True"
| "awaits_remote (AwaitBase bf lf p) = False"
| "awaits_remote (AwaitLogo b lf p) = False"

text \<open>
  \<open>ui\<close> is the component state as the setters have written it. \<open>view\<close> is the state
  of the last render: the values that the closure of \<^verbatim>\<open>handleGenerate\<close> and the
  \<^verbatim>\<open>disabled\<close> attribute of the button hold until the component is rendered again.
  \<open>tasks\<close> are the calls of \<^verbatim>\<open>handleGenerate\<close> in progress, \<open>sent\<close> every request
  handed to the remote endpoint so far.
\<close>

record system =
  ui :: app_state
  view :: app_state
  tasks :: "task list"
  sent :: "gen_request list"

definition initial_system :: system where
  "initial_system = \<lparr>ui = initial_state, view = initial_state, tasks = [], sent = []\<rparr>"

text \<open>
  What can happen to the page: a click on the button, a render of the component, the end
  of a file read or of the remote call of the task at a position, \<^verbatim>\<open>onImageUpload\<close>
  from either uploader, and an edit of the prompt.
\<close>

datatype event =
    Click
  | Render
  | ReadDone nat "string option"
  | RemoteDone nat "js_value + response"
  | BaseUpload "imageFile option"
  | LogoUpload "imageFile option"
  | PromptChange string

text \<open>
  \<^verbatim>\<open>handleGenerate\<close> from its start to its first \<^verbatim>\<open>await\<close>. It has no test of
  \<^verbatim>\<open>isLoading\<close>. The \<^verbatim>\<open>baseImage\<close>, \<^verbatim>\<open>logoImage\<close> and \<^verbatim>\<open>prompt\<close> it reads are
  those of the last render; the setters write the component state.
\<close>

definition handleGenerate_begin :: "system \<Rightarrow> system" where
  "handleGenerate_begin sys =
     (case baseImage (view sys) of
        None \<Rightarrow> sys\<lparr>ui := setError (Some missing_input) (ui sys)\<rparr>
      | Some b \<Rightarrow>
          (case logoImage (view sys) of
             None \<Rightarrow> sys\<lparr>ui := setError (Some missing_input) (ui sys)\<rparr>
           | Some l \<Rightarrow>
               if prompt (view sys) = [] then sys\<lparr>ui := setError (Some missing_input) (ui sys)\<rparr>
               else sys\<lparr>ui := setGeneratedImage None (setError None (setIsLoading True (ui sys))),
                        tasks := tasks sys @ [AwaitBase (file b) (file l) (prompt (view sys))]\<rparr>))"

text \<open>The task at position \<open>i\<close> leaves its \<^verbatim>\<open>try\<close> with \<open>outcome\<close> and ends.\<close>

definition handleGenerate_end :: "nat \<Rightarrow> js_value + string \<Rightarrow> system \<Rightarrow> system" where
  "handleGenerate_end i outcome sys =
     sys\<lparr>ui := handleGenerate_settle outcome (ui sys),
         tasks := take i (tasks sys) @ drop (Suc i) (tasks sys)\<rparr>"

text \<open>
  One event. A click reaches \<^verbatim>\<open>handleGenerate\<close> unless the button, as last rendered, is
  disabled; a render brings \<open>view\<close> up to the component state.
\<close>

fun step :: "event \<Rightarrow> system \<Rightarrow> system" where
  "step Click sys = (if button_disabled (view sys) then sys else handleGenerate_begin sys)"
| "step Render sys = sys\<lparr>view := ui sys\<rparr>"
| "step (ReadDone i outcome) sys =
     (case index (tasks sys) i of
        None \<Rightarrow> sys
      | Some (AwaitBase bf lf p) \<Rightarrow>
          (case fileToBase64 bf outcome of
             Inl e \<Rightarrow> handleGenerate_end i (Inl e) sys
           | Inr b \<Rightarrow> sys\<lparr>tasks := (tasks sys)[i := AwaitLogo b lf p]\<rparr>)
      | Some (AwaitLogo b lf p) \<Rightarrow>
          (case fileToBase64 lf outcome of
             Inl e \<Rightarrow> handleGenerate_end i (Inl e) sys
           | Inr l \<Rightarrow>
               sys\<lparr>tasks := (tasks sys)[i := AwaitRemote (build_request b l p)],
                   sent := sent sys @ [build_request b l p]\<rparr>)
      | Some (AwaitRemote req) \<Rightarrow> sys)"
| "step (RemoteDone i outcome) sys =
     (case index (tasks sys) i of
        Some (AwaitRemote req) \<Rightarrow> handleGenerate_end i (generateEditedImage_resume outcome) sys
      | _ \<Rightarrow> sys)"
| "step (BaseUpload v) sys = sys\<lparr>ui := setBaseImage v (ui sys)\<rparr>"
| "step (LogoUpload v) sys = sys\<lparr>ui := setLogoImage v (ui sys)\<rparr>"
| "step (PromptChange v) sys = sys\<lparr>ui := setPrompt v (ui sys)\<rparr>"

fun run :: "event list \<Rightarrow> system \<Rightarrow> system" where
  "run [] sys = sys"
| "run (e # es) sys = run es (step e sys)"

text \<open>
  The next \<^verbatim>\<open>await\<close> of the oldest task ends the way the reader \<open>readAsDataURL\<close>
  and the endpoint \<open>generateContent\<close> decide.
\<close>

definition resolve ::
  "(file \<Rightarrow> string option) \<Rightarrow> (gen_request \<Rightarrow> js_value + response) \<Rightarrow> system \<Rightarrow> system" where
  "resolve readAsDataURL generateContent sys =
     (case tasks sys of
        [] \<Rightarrow> sys
      | AwaitBase bf lf p # ts \<Rightarrow> step (ReadDone 0 (readAsDataURL bf)) sys
      | AwaitLogo b lf p # ts \<Rightarrow> step (ReadDone 0 (readAsDataURL lf)) sys
      | AwaitRemote req # ts \<Rightarrow> step (RemoteDone 0 (generateContent req)) sys)"

text \<open>At most one call in progress, and the loading flag is set exactly while there is one.\<close>

definition single_flight :: "system \<Rightarrow> bool" where
  "single_flight sys = (length (tasks sys) \<le> 1 \<and> (isLoading (ui sys) = (tasks sys \<noteq> [])))"

text \<open>
  A sequence of events in which the component is rendered between any two clicks:
  \<open>render_between_clicks p es\<close>, where \<open>p\<close> says that a click has happened since the
  last render, holds when no click of \<open>es\<close> comes while such a click is pending.
\<close>

fun render_between_clicks :: "bool \<Rightarrow> event list \<Rightarrow> bool" where
  "render_between_clicks p [] = True"
| "render_between_clicks p (e # es) =
     (case e of
        Click \<Rightarrow> \<not> p \<and> render_between_clicks True es
      | Render \<Rightarrow> render_between_clicks False es
      | ReadDone i outcome \<Rightarrow> render_between_clicks p es
      | RemoteDone i outcome \<Rightarrow> render_between_clicks p es
      | BaseUpload v \<Rightarrow> render_between_clicks p es
      | LogoUpload v \<Rightarrow> render_between_clicks p es
      | PromptChange v \<Rightarrow> render_between_clicks p es)"

text \<open>A call is in progress only if the last render has seen the loading flag set.\<close>

definition rendered_loading :: "system \<Rightarrow> bool" where
  "rendered_loading sys = (tasks sys = [] \<or> isLoading (view sys))"

section \<open>Concrete inputs\<close>

definition person_png :: "file" where
  "person_png = \<lparr>file_name = ''person.png'', file_type = ''image/png'', file_size = 2097152\<rparr>"

definition logo_jpeg :: "file" where
  "logo_jpeg = \<lparr>file_name = ''logo.jpg'', file_type = ''image/jpeg'', file_size = 1048576\<rparr>"

definition anim_gif :: "file" where
  "anim_gif = \<lparr>file_name = ''anim.gif'', file_type = ''image/gif'', file_size = 1000\<rparr>"

definition large_png :: "file" where
  "large_png = \<lparr>file_name = ''large.png'', file_type = ''image/png'', file_size = 5000000\<rparr>"

definition large_pdf :: "file" where
  "large_pdf = \<lparr>file_name = ''scan.pdf'', file_type = ''application/pdf'', file_size = 5000000\<rparr>"

text \<open>A reader that succeeds on every file, and one that fails on every file.\<close>

definition good_reader :: "file \<Rightarrow> string option" where
  "good_reader f = Some (''data:'' @ file_type f @ '';base64,QUJD'')"

definition bad_reader :: "file \<Rightarrow> string option" where
  "bad_reader f = None"

definition person_encoded :: encoded where
  "person_encoded = \<lparr>data = Some ''QUJD'', mimeType = ''image/png''\<rparr>"

definition logo_encoded :: encoded where
  "logo_encoded = \<lparr>data = Some ''QUJD'', mimeType = ''image/jpeg''\<rparr>"

definition caption_part :: part where
  "caption_part = \<lparr>inlineData = None, part_text = Some ''Here is your image''\<rparr>"

definition first_blob :: blob where
  "first_blob = \<lparr>blob_data = ''Rmlyc3Q='', blob_mimeType = ''image/png''\<rparr>"

definition first_image_part :: part where
  "first_image_part = \<lparr>inlineData = Some first_blob, part_text = None\<rparr>"

definition second_image_part :: part where
  "second_image_part =
     \<lparr>inlineData = Some \<lparr>blob_data = ''U2Vjb25k'', blob_mimeType = ''image/webp''\<rparr>,
      part_text = None\<rparr>"

definition image_response :: response where
  "image_response =
     \<lparr>candidates = Some [\<lparr>content = Some
        \<lparr>parts = Some [caption_part, first_image_part, second_image_part]\<rparr>\<rparr>]\<rparr>"

definition caption_response :: response where
  "caption_response = \<lparr>candidates = Some [\<lparr>content = Some \<lparr>parts = Some [caption_part]\<rparr>\<rparr>]\<rparr>"

definition image_endpoint :: "gen_request \<Rightarrow> js_value + response" where
  "image_endpoint req = Inr image_response"

definition caption_endpoint :: "gen_request \<Rightarrow> js_value + response" where
  "caption_endpoint req = Inr caption_response"

definition failing_endpoint :: "gen_request \<Rightarrow> js_value + response" where
  "failing_endpoint req = Inl (JsError ''ApiError'' ''quota exceeded'')"

text \<open>Both images selected and a prompt typed in; the same with the prompt erased.\<close>

definition person_image :: imageFile where
  "person_image = \<lparr>file = person_png, preview = good_reader person_png\<rparr>"

definition logo_image :: imageFile where
  "logo_image = \<lparr>file = logo_jpeg, preview = good_reader logo_jpeg\<rparr>"

definition ready_state :: app_state where
  "ready_state =
     initial_state
       \<lparr>baseImage := Some person_image, logoImage := Some logo_image,
        prompt := ''put the logo on the shirt''\<rparr>"

definition blank_prompt_state :: app_state where
  "blank_prompt_state = ready_state\<lparr>prompt := []\<rparr>"

definition ready_system :: system where
  "ready_system = \<lparr>ui = ready_state, view = ready_state, tasks = [], sent = []\<rparr>"

definition blank_prompt_system :: system where
  "blank_prompt_system =
     \<lparr>ui = blank_prompt_state, view = blank_prompt_state, tasks = [], sent = []\<rparr>"

text \<open>A generated image on display, both images still selected, the prompt erased.\<close>

definition succeeded_blank_state :: app_state where
  "succeeded_blank_state =
     blank_prompt_state\<lparr>generatedImage := Some ''data:image/png;base64,Rmlyc3Q=''\<rparr>"

definition succeeded_blank_system :: system where
  "succeeded_blank_system =
     \<lparr>ui = succeeded_blank_state, view = succeeded_blank_state, tasks = [], sent = []\<rparr>"

definition idle_uploader :: "app_state uploader" where
  "idle_uploader = \<lparr>alerts = [], reads = [], inputValue = [], owner = initial_state\<rparr>"

text \<open>
  Both images chosen, the prompt typed, the page rendered, the button clicked once. Then
  either a render, or a second click before any render, after which both reads of both
  calls end well.
\<close>

definition submit_once :: "event list" where
  "submit_once =
     [BaseUpload (Some person_image), LogoUpload (Some logo_image),
      PromptChange ''put the logo on the shirt'', Render, Click]"

definition submit_rendered :: "event list" where
  "submit_rendered = submit_once @ [Render]"

definition submit_twice :: "event list" where
  "submit_twice =
     submit_once @
     [Click,
      ReadDone 0 (good_reader person_png), ReadDone 0 (good_reader logo_jpeg),
      ReadDone 1 (good_reader person_png), ReadDone 1 (good_reader logo_jpeg)]"

text \<open>
  A submission that succeeds, each step rendered; then the prompt is erased and the button
  clicked again.
\<close>

definition succeed_then_blank :: "event list" where
  "succeed_then_blank =
     submit_rendered @
     [ReadDone 0 (good_reader person_png), ReadDone 0 (good_reader logo_jpeg),
      RemoteDone 0 (Inr image_response), Render, PromptChange [], Render, Click]"

section \<open>The first inline image of the response is returned\<close>

lemma scan_parts_first:
  "(\<forall>x\<in>set pre. inlineData x = None) \<Longrightarrow> inlineData q = Some d \<Longrightarrow>
   scan_parts (pre @ q # post) = Some (''data:'' @ blob_mimeType d @ '';base64,'' @ blob_data d)"
  by (induction pre) auto

lemma scan_parts_None: "(scan_parts ps = None) = (\<forall>x\<in>set ps. inlineData x = None)"
  by (induction ps) (auto split: option.splits)

lemma first_inline_split:
  "\<exists>x\<in>set ps. inlineData x \<noteq> None \<Longrightarrow>
   \<exists>pre q post d. ps = pre @ q # post \<and> (\<forall>x\<in>set pre. inlineData x = None) \<and> inlineData q = Some d"
proof (induction ps)
  case Nil
  then show ?case by simp
next
  case (Cons a ps)
  show ?case
  proof (cases "inlineData a")
    case None
    with Cons.prems have "\<exists>x\<in>set ps. inlineData x \<noteq> None" by auto
    from Cons.IH[OF this] obtain pre q post d where
      "ps = pre @ q # post" "\<forall>x\<in>set pre. inlineData x = None" "inlineData q = Some d"
      by blast
    with None have
      "a # ps = (a # pre) @ q # post \<and> (\<forall>x\<in>set (a # pre). inlineData x = None) \<and>
       inlineData q = Some d"
      by simp
    then show ?thesis by blast
  next
    case (Some d)
    then have
      "a # ps = [] @ a # ps \<and> (\<forall>x\<in>set []. inlineData x = None) \<and> inlineData a = Some d"
      by simp
    then show ?thesis by blast
  qed
qed

text \<open>
  Claim C1. When the remote call returns a response whose content parts (those of the
  first candidate) hold at least one part with inline data, the parts split into a prefix
  without inline data, the first part \<open>q\<close> with inline data \<open>d\<close>, and the rest; and
  \<^verbatim>\<open>generateEditedImage\<close> resolves to \<^verbatim>\<open>data:<mimeType>;base64,<data>\<close> built from
  \<open>d\<close>, whatever the later parts are.
\<close>

theorem generateEditedImage_first_inline:
  assumes "generateContent (build_request b l p) = Inr resp"
    and "\<exists>x\<in>set (response_parts resp). inlineData x \<noteq> None"
  shows "\<exists>pre q post d.
           response_parts resp = pre @ q # post \<and>
           (\<forall>x\<in>set pre. inlineData x = None) \<and>
           inlineData q = Some d \<and>
           snd (generateEditedImage generateContent b l p) =
             Inr (''data:'' @ blob_mimeType d @ '';base64,'' @ blob_data d)"
proof -
  from first_inline_split[OF assms(2)] obtain pre q post d where
    split: "response_parts resp = pre @ q # post"
      "\<forall>x\<in>set pre. inlineData x = None" "inlineData q = Some d"
    by blast
  then have "scan_parts (response_parts resp) =
      Some (''data:'' @ blob_mimeType d @ '';base64,'' @ blob_data d)"
    by (simp add: scan_parts_first)
  with assms(1) have "snd (generateEditedImage generateContent b l p) =
      Inr (''data:'' @ blob_mimeType d @ '';base64,'' @ blob_data d)"
    by (simp add: generateEditedImage_def generateEditedImage_resume_def)
  with split show ?thesis by blast
qed

theorem generateEditedImage_first_inline_witness:
  "image_endpoint (build_request person_encoded logo_encoded ''put the logo on the shirt'')
     = Inr image_response
   \<and> (\<exists>x\<in>set (response_parts image_response). inlineData x \<noteq> None)
   \<and> snd (generateEditedImage image_endpoint person_encoded logo_encoded
            ''put the logo on the shirt'') = Inr ''data:image/png;base64,Rmlyc3Q=''"
proof -
  have h1: "image_endpoint (build_request person_encoded logo_encoded ''put the logo on the shirt'')
      = Inr image_response"
    by (simp add: image_endpoint_def)
  have parts: "response_parts image_response = [caption_part, first_image_part, second_image_part]"
    by (simp add: response_parts_def image_response_def)
  have h2: "\<exists>x\<in>set (response_parts image_response). inlineData x \<noteq> None"
    by (simp add: parts first_image_part_def)
  from generateEditedImage_first_inline
         [of image_endpoint person_encoded logo_encoded "''put the logo on the shirt''"
             image_response, OF h1 h2]
  obtain pre q post d where
    split: "response_parts image_response = pre @ q # post"
      "\<forall>x\<in>set pre. inlineData x = None" "inlineData q = Some d"
    and res: "snd (generateEditedImage image_endpoint person_encoded logo_encoded
        ''put the logo on the shirt'') = Inr (''data:'' @ blob_mimeType d @ '';base64,'' @ blob_data d)"
    by blast
  have "scan_parts (response_parts image_response) =
      Some (''data:'' @ blob_mimeType d @ '';base64,'' @ blob_data d)"
    using split by (simp add: scan_parts_first)
  then have "''data:'' @ blob_mimeType d @ '';base64,'' @ blob_data d = ''data:image/png;base64,Rmlyc3Q=''"
    by (simp add: parts caption_part_def first_image_part_def first_blob_def)
  with res h1 h2 show ?thesis by simp
qed

section \<open>The request payload\<close>

text \<open>
  Claim C2. For every pair of encoded images and every instruction, a call of
  \<^verbatim>\<open>generateEditedImage\<close> sends exactly one request, and its parts are exactly three, in
  this order: the inline content and media type of the base image, the inline content and
  media type of the logo image, the instruction as the text part.
\<close>

theorem generateEditedImage_payload:
  "map contents (fst (generateEditedImage generateContent b l p)) =
     [[InlinePart (data b) (mimeType b), InlinePart (data l) (mimeType l), TextPart p]]"
  by (simp add: generateEditedImage_def build_request_def Let_def)

section \<open>A response without an image\<close>

lemmas setters =
  setError_def setIsLoading_def setGeneratedImage_def setBaseImage_def setLogoImage_def
  setPrompt_def

lemma resume_no_image:
  "\<forall>x\<in>set (response_parts resp). inlineData x = None \<Longrightarrow>
   generateEditedImage_resume (Inr resp) =
     Inl (JsString ''No image was generated in the response.'')"
  using scan_parts_None[of "response_parts resp"]
  by (simp add: generateEditedImage_resume_def generateEditedImage_catch_def)

text \<open>
  Claim C3. When the remote call returns a response in which no content part carries
  inline data, \<^verbatim>\<open>generateEditedImage\<close> rejects with the text
  \<^verbatim>\<open>No image was generated in the response.\<close>; and \<^verbatim>\<open>handleGenerate\<close>, started with
  both images and a non-empty prompt and with both file reads succeeding, ends in the
  failed state: not loading, no generated image, the error message that text.
\<close>

theorem no_image_rejects_and_fails:
  assumes "baseImage s = Some bi" and "logoImage s = Some li" and "prompt s \<noteq> []"
    and "fileToBase64 (file bi) (readAsDataURL (file bi)) = Inr eb"
    and "fileToBase64 (file li) (readAsDataURL (file li)) = Inr el"
    and "generateContent (build_request eb el (prompt s)) = Inr resp"
    and "\<forall>x\<in>set (response_parts resp). inlineData x = None"
  shows "snd (generateEditedImage generateContent eb el (prompt s)) =
           Inl (JsString ''No image was generated in the response.'')
         \<and> fst (handleGenerate readAsDataURL generateContent s) =
           s\<lparr>generatedImage := None, isLoading := False,
              error := Some ''No image was generated in the response.''\<rparr>"
  using assms resume_no_image[of resp]
  by (simp add: handleGenerate_def handleGenerate_try_def generateEditedImage_def
      handleGenerate_settle_def setters)

theorem no_image_rejects_and_fails_witness:
  "baseImage ready_state = Some person_image
   \<and> logoImage ready_state = Some logo_image
   \<and> prompt ready_state \<noteq> []
   \<and> fileToBase64 (file person_image) (good_reader (file person_image)) = Inr person_encoded
   \<and> fileToBase64 (file logo_image) (good_reader (file logo_image)) = Inr logo_encoded
   \<and> caption_endpoint (build_request person_encoded logo_encoded (prompt ready_state))
       = Inr caption_response
   \<and> map inlineData (response_parts caption_response) = [None]
   \<and> snd (generateEditedImage caption_endpoint person_encoded logo_encoded (prompt ready_state)) =
           Inl (JsString ''No image was generated in the response.'')
   \<and> fst (handleGenerate good_reader caption_endpoint ready_state) =
           ready_state\<lparr>generatedImage := None, isLoading := False,
              error := Some ''No image was generated in the response.''\<rparr>"
proof -
  have h1: "baseImage ready_state = Some person_image"
    and h2: "logoImage ready_state = Some logo_image"
    and h3: "prompt ready_state \<noteq> []"
    by (simp_all add: ready_state_def)
  have h4: "fileToBase64 (file person_image) (good_reader (file person_image)) = Inr person_encoded"
    and h5: "fileToBase64 (file logo_image) (good_reader (file logo_image)) = Inr logo_encoded"
    by (simp_all add: fileToBase64_def good_reader_def person_png_def logo_jpeg_def
        person_image_def logo_image_def person_encoded_def logo_encoded_def index_def)
  have h6: "caption_endpoint (build_request person_encoded logo_encoded (prompt ready_state)) =
      Inr caption_response"
    by (simp add: caption_endpoint_def)
  have h7': "map inlineData (response_parts caption_response) = [None]"
    by (simp add: response_parts_def caption_response_def caption_part_def)
  have h7: "\<forall>x\<in>set (response_parts caption_response). inlineData x = None"
    by (simp add: response_parts_def caption_response_def caption_part_def)
  from no_image_rejects_and_fails[where s = ready_state and readAsDataURL = good_reader
        and generateContent = caption_endpoint, OF h1 h2 h3 h4 h5 h6 h7] h1 h2 h3 h4 h5 h6 h7'
  show ?thesis by simp
qed

section \<open>Submission with a missing input\<close>

lemma begin_missing:
  "baseImage (view sys) = None \<or> logoImage (view sys) = None \<or> prompt (view sys) = [] \<Longrightarrow>
   handleGenerate_begin sys = sys\<lparr>ui := (ui sys)\<lparr>error := Some missing_input\<rparr>\<rparr>"
  by (auto simp: handleGenerate_begin_def setters split: option.splits)

lemma begin_ready:
  "baseImage (view sys) = Some b \<Longrightarrow> logoImage (view sys) = Some l \<Longrightarrow> prompt (view sys) \<noteq> [] \<Longrightarrow>
   handleGenerate_begin sys =
     sys\<lparr>ui := (ui sys)\<lparr>isLoading := True, error := None, generatedImage := None\<rparr>,
         tasks := tasks sys @ [AwaitBase (file b) (file l) (prompt (view sys))]\<rparr>"
  by (auto simp: handleGenerate_begin_def setters split: option.splits)

lemma handleGenerate_missing:
  "baseImage s = None \<or> logoImage s = None \<or> prompt s = [] \<Longrightarrow>
   handleGenerate readAsDataURL generateContent s = (s\<lparr>error := Some missing_input\<rparr>, [])"
  by (auto simp: handleGenerate_def setters split: option.splits)

text \<open>
  Claim C4 as stated does not hold. With both images selected and the prompt erased the
  button is enabled, and \<^verbatim>\<open>handleGenerate\<close> (called directly or through a click) changes
  the state: the error message, empty before, is set.
\<close>

theorem blank_prompt_submission_changes_state:
  "baseImage blank_prompt_state \<noteq> None \<and> logoImage blank_prompt_state \<noteq> None
   \<and> prompt blank_prompt_state = []
   \<and> error blank_prompt_state = None
   \<and> \<not> button_disabled blank_prompt_state
   \<and> fst (handleGenerate good_reader image_endpoint blank_prompt_state) \<noteq> blank_prompt_state
   \<and> error (fst (handleGenerate good_reader image_endpoint blank_prompt_state)) =
       Some ''Please provide a base image, a logo image, and a prompt.''
   \<and> step Click blank_prompt_system \<noteq> blank_prompt_system
   \<and> error (ui (step Click blank_prompt_system)) =
       Some ''Please provide a base image, a logo image, and a prompt.''"
proof -
  have st: "baseImage blank_prompt_state \<noteq> None" "logoImage blank_prompt_state \<noteq> None"
    "prompt blank_prompt_state = []" "error blank_prompt_state = None"
    "\<not> button_disabled blank_prompt_state"
    by (simp_all add: blank_prompt_state_def ready_state_def initial_state_def button_disabled_def)
  have hg: "error (fst (handleGenerate good_reader image_endpoint blank_prompt_state)) =
      Some ''Please provide a base image, a logo image, and a prompt.''"
    using st(3) by (simp add: handleGenerate_missing missing_input_def)
  have ck: "error (ui (step Click blank_prompt_system)) =
      Some ''Please provide a base image, a logo image, and a prompt.''"
    using st(3,5) by (simp add: blank_prompt_system_def begin_missing missing_input_def)
  from hg st(4) have "fst (handleGenerate good_reader image_endpoint blank_prompt_state)
      \<noteq> blank_prompt_state"
    by auto
  moreover from ck st(4) have "step Click blank_prompt_system \<noteq> blank_prompt_system"
    by (auto simp: blank_prompt_system_def)
  ultimately show ?thesis using st hg ck by blast
qed

text \<open>
  Claim C4, amended. Whenever either image slot is null or the prompt is empty,
  \<^verbatim>\<open>handleGenerate\<close> sends no request and does not set the loading flag: it leaves the
  image slots, the prompt, the loading flag and the generated image as they are and sets
  the error message to \<^verbatim>\<open>Please provide a base image, a logo image, and a prompt.\<close>.
  When an image slot is null in the state last rendered, the button is disabled, and a
  click changes nothing at all.
\<close>

theorem missing_input_sets_error_only:
  assumes "baseImage s = None \<or> logoImage s = None \<or> prompt s = []"
  shows "handleGenerate readAsDataURL generateContent s =
           (s\<lparr>error := Some ''Please provide a base image, a logo image, and a prompt.''\<rparr>, [])
         \<and> (baseImage s = None \<or> logoImage s = None \<longrightarrow>
              step Click \<lparr>ui = u, view = s, tasks = ts, sent = rs\<rparr> =
                \<lparr>ui = u, view = s, tasks = ts, sent = rs\<rparr>)"
  using assms by (auto simp: handleGenerate_missing missing_input_def button_disabled_def)

theorem missing_input_sets_error_only_witness:
  "(baseImage initial_state = None \<or> logoImage initial_state = None \<or> prompt initial_state = [])
   \<and> (baseImage initial_state = None \<or> logoImage initial_state = None)
   \<and> handleGenerate good_reader image_endpoint initial_state =
        (initial_state\<lparr>error := Some ''Please provide a base image, a logo image, and a prompt.''\<rparr>,
         [])
   \<and> step Click \<lparr>ui = initial_state, view = initial_state, tasks = [], sent = []\<rparr> =
        \<lparr>ui = initial_state, view = initial_state, tasks = [], sent = []\<rparr>"
proof -
  have h: "baseImage initial_state = None \<or> logoImage initial_state = None \<or> prompt initial_state = []"
    by (simp add: initial_state_def)
  have h': "baseImage initial_state = None \<or> logoImage initial_state = None"
    by (simp add: initial_state_def)
  from missing_input_sets_error_only[OF h, of good_reader image_endpoint initial_state "[]" "[]"] h h'
  show ?thesis by blast
qed

section \<open>What a submission does to the workflow state\<close>

lemma panels_succeeded_blank:
  "panels succeeded_blank_state = [ResultPanel ''data:image/png;base64,Rmlyc3Q='']"
  by (simp add: panels_def succeeded_blank_state_def blank_prompt_state_def ready_state_def
      initial_state_def truthy_def)

lemma run_submit_once:
  "run submit_once initial_system =
     \<lparr>ui = ready_state\<lparr>isLoading := True\<rparr>, view = ready_state,
      tasks = [AwaitBase person_png logo_jpeg ''put the logo on the shirt''], sent = []\<rparr>"
  by (simp add: submit_once_def initial_system_def ready_state_def initial_state_def
      button_disabled_def handleGenerate_begin_def setters person_image_def logo_image_def)

lemma run_append: "run (es @ fs) sys = run fs (run es sys)"
  by (induction es arbitrary: sys) simp_all

lemma run_submit_rendered:
  "run submit_rendered initial_system =
     \<lparr>ui = ready_state\<lparr>isLoading := True\<rparr>, view = ready_state\<lparr>isLoading := True\<rparr>,
      tasks = [AwaitBase person_png logo_jpeg ''put the logo on the shirt''], sent = []\<rparr>"
  by (simp add: submit_rendered_def run_append run_submit_once)

lemma encoded_examples:
  "fileToBase64 person_png (good_reader person_png) = Inr person_encoded"
  "fileToBase64 logo_jpeg (good_reader logo_jpeg) = Inr logo_encoded"
  by (simp_all add: fileToBase64_def good_reader_def person_png_def logo_jpeg_def
      person_encoded_def logo_encoded_def index_def)

lemma run_succeed_then_blank:
  "run succeed_then_blank initial_system =
     \<lparr>ui = succeeded_blank_state
        \<lparr>error := Some ''Please provide a base image, a logo image, and a prompt.''\<rparr>,
      view = succeeded_blank_state, tasks = [],
      sent = [build_request person_encoded logo_encoded ''put the logo on the shirt'']\<rparr>"
proof -
  have parts: "scan_parts (response_parts image_response) = Some ''data:image/png;base64,Rmlyc3Q=''"
    by (simp add: response_parts_def image_response_def caption_part_def first_image_part_def
        first_blob_def)
  show ?thesis
    by (simp add: succeed_then_blank_def run_append run_submit_rendered index_def
      encoded_examples generateEditedImage_resume_def parts handleGenerate_end_def
      handleGenerate_settle_def setters button_disabled_def handleGenerate_begin_def
      succeeded_blank_state_def blank_prompt_state_def ready_state_def initial_state_def
      missing_input_def)
qed

text \<open>
  Claim C5 as stated does not hold. After a submission has succeeded, the prompt is erased
  and the button clicked: the error box is rendered, but the generated image is still
  held and is rendered beside it, so the page is not in a failed state showing the error
  alone. And in the initial state, where an image slot is null, the button is disabled:
  the click makes no transition and the error stays empty.
\<close>

theorem missing_input_beside_result_or_no_transition:
  "panels (view (run succeed_then_blank initial_system)) =
     [ResultPanel ''data:image/png;base64,Rmlyc3Q='']
   \<and> panels (ui (run succeed_then_blank initial_system)) =
     [ErrorPanel ''Please provide a base image, a logo image, and a prompt.'',
      ResultPanel ''data:image/png;base64,Rmlyc3Q='']
   \<and> generatedImage (ui (run succeed_then_blank initial_system)) =
     Some ''data:image/png;base64,Rmlyc3Q=''
   \<and> baseImage (view initial_system) = None
   \<and> step Click initial_system = initial_system
   \<and> error (ui (step Click initial_system)) = None"
proof -
  have a: "panels (view (run succeed_then_blank initial_system)) =
     [ResultPanel ''data:image/png;base64,Rmlyc3Q='']"
    by (simp add: run_succeed_then_blank panels_succeeded_blank)
  have b: "panels (ui (run succeed_then_blank initial_system)) =
     [ErrorPanel ''Please provide a base image, a logo image, and a prompt.'',
      ResultPanel ''data:image/png;base64,Rmlyc3Q='']"
    and c: "generatedImage (ui (run succeed_then_blank initial_system)) =
     Some ''data:image/png;base64,Rmlyc3Q=''"
    by (simp_all add: run_succeed_then_blank panels_def succeeded_blank_state_def
        blank_prompt_state_def ready_state_def initial_state_def truthy_def)
  have d: "baseImage (view initial_system) = None"
    and e: "step Click initial_system = initial_system"
    by (simp_all add: initial_system_def initial_state_def button_disabled_def)
  have f: "error (ui (step Click initial_system)) = None"
    unfolding e by (simp add: initial_system_def initial_state_def)
  from a b c d e f show ?thesis by blast
qed

text \<open>
  Claim C5, amended. \<^verbatim>\<open>handleGenerate\<close> up to its first \<^verbatim>\<open>await\<close>, reading the images
  and the prompt of the last render: with both images selected and a non-empty prompt it
  sets the loading flag, clears the error and the generated image (only the loading
  notice is rendered) and starts one call, and only then does a state that was not loading
  become loading. Otherwise the call sends no request and changes nothing but the error
  message, which becomes the missing-input text: starting from a state that is not
  loading, the error box is then rendered alone when no generated image was held, and
  beside the earlier generated image when one was. Through the button this branch is
  reached only with an empty prompt: when an image slot is null the button is disabled
  and the click changes nothing.
\<close>

theorem submission_transitions:
  "(baseImage (view sys) \<noteq> None \<and> logoImage (view sys) \<noteq> None \<and> prompt (view sys) \<noteq> [] \<longrightarrow>
      ui (handleGenerate_begin sys) =
        (ui sys)\<lparr>isLoading := True, error := None, generatedImage := None\<rparr>
      \<and> panels (ui (handleGenerate_begin sys)) = [LoadingPanel]
      \<and> length (tasks (handleGenerate_begin sys)) = Suc (length (tasks sys)))
   \<and> (baseImage (view sys) = None \<or> logoImage (view sys) = None \<or> prompt (view sys) = [] \<longrightarrow>
      handleGenerate_begin sys =
        sys\<lparr>ui := (ui sys)\<lparr>error := Some ''Please provide a base image, a logo image, and a prompt.''\<rparr>\<rparr>
      \<and> snd (handleGenerate readAsDataURL generateContent (view sys)) = []
      \<and> (\<not> isLoading (ui sys) \<longrightarrow>
           panels (ui (handleGenerate_begin sys)) =
             ErrorPanel ''Please provide a base image, a logo image, and a prompt.'' #
             (case generatedImage (ui sys) of
                None \<Rightarrow> []
              | Some u \<Rightarrow> if u = [] then [] else [ResultPanel u])))
   \<and> (\<not> isLoading (ui sys) \<and> isLoading (ui (handleGenerate_begin sys)) \<longrightarrow>
      baseImage (view sys) \<noteq> None \<and> logoImage (view sys) \<noteq> None \<and> prompt (view sys) \<noteq> [])
   \<and> (baseImage (view sys) = None \<or> logoImage (view sys) = None \<longrightarrow> step Click sys = sys)"
proof -
  have ready: "ui (handleGenerate_begin sys) =
        (ui sys)\<lparr>isLoading := True, error := None, generatedImage := None\<rparr>
      \<and> panels (ui (handleGenerate_begin sys)) = [LoadingPanel]
      \<and> length (tasks (handleGenerate_begin sys)) = Suc (length (tasks sys))"
    if "baseImage (view sys) \<noteq> None \<and> logoImage (view sys) \<noteq> None \<and> prompt (view sys) \<noteq> []"
  proof -
    from that obtain b l where "baseImage (view sys) = Some b" "logoImage (view sys) = Some l"
      "prompt (view sys) \<noteq> []"
      by auto
    from begin_ready[OF this] show ?thesis by (simp add: panels_def truthy_def)
  qed
  have missing: "handleGenerate_begin sys =
        sys\<lparr>ui := (ui sys)\<lparr>error := Some ''Please provide a base image, a logo image, and a prompt.''\<rparr>\<rparr>
      \<and> snd (handleGenerate readAsDataURL generateContent (view sys)) = []
      \<and> (\<not> isLoading (ui sys) \<longrightarrow>
           panels (ui (handleGenerate_begin sys)) =
             ErrorPanel ''Please provide a base image, a logo image, and a prompt.'' #
             (case generatedImage (ui sys) of
                None \<Rightarrow> []
              | Some u \<Rightarrow> if u = [] then [] else [ResultPanel u]))"
    if "baseImage (view sys) = None \<or> logoImage (view sys) = None \<or> prompt (view sys) = []"
    using begin_missing[OF that] handleGenerate_missing[OF that]
    by (simp add: missing_input_def panels_def truthy_def split: option.splits)
  have only: "baseImage (view sys) \<noteq> None \<and> logoImage (view sys) \<noteq> None \<and> prompt (view sys) \<noteq> []"
    if "\<not> isLoading (ui sys) \<and> isLoading (ui (handleGenerate_begin sys))"
  proof (rule ccontr)
    assume "\<not> (baseImage (view sys) \<noteq> None \<and> logoImage (view sys) \<noteq> None \<and> prompt (view sys) \<noteq> [])"
    then have "baseImage (view sys) = None \<or> logoImage (view sys) = None \<or> prompt (view sys) = []"
      by blast
    from begin_missing[OF this] that show False by simp
  qed
  have click: "step Click sys = sys"
    if "baseImage (view sys) = None \<or> logoImage (view sys) = None"
    using that by (auto simp: button_disabled_def)
  from ready missing only click show ?thesis by blast
qed

theorem submission_transitions_witness:
  "(baseImage (view ready_system) \<noteq> None \<and> logoImage (view ready_system) \<noteq> None
      \<and> prompt (view ready_system) \<noteq> [])
   \<and> \<not> isLoading (ui ready_system)
   \<and> ui (handleGenerate_begin ready_system) = ready_state\<lparr>isLoading := True\<rparr>
   \<and> panels (ui (handleGenerate_begin ready_system)) = [LoadingPanel]
   \<and> length (tasks (handleGenerate_begin ready_system)) = 1
   \<and> prompt (view succeeded_blank_system) = []
   \<and> \<not> isLoading (ui succeeded_blank_system)
   \<and> handleGenerate_begin succeeded_blank_system =
       succeeded_blank_system\<lparr>ui := succeeded_blank_state
         \<lparr>error := Some ''Please provide a base image, a logo image, and a prompt.''\<rparr>\<rparr>
   \<and> snd (handleGenerate good_reader image_endpoint (view succeeded_blank_system)) = []
   \<and> panels (ui (handleGenerate_begin succeeded_blank_system)) =
       [ErrorPanel ''Please provide a base image, a logo image, and a prompt.'',
        ResultPanel ''data:image/png;base64,Rmlyc3Q='']
   \<and> baseImage (view initial_system) = None
   \<and> step Click initial_system = initial_system"
proof -
  have r: "baseImage (view ready_system) \<noteq> None \<and> logoImage (view ready_system) \<noteq> None
      \<and> prompt (view ready_system) \<noteq> []"
    and n: "\<not> isLoading (ui ready_system)"
    by (simp_all add: ready_system_def ready_state_def initial_state_def)
  have eq: "(ui ready_system)\<lparr>isLoading := True, error := None, generatedImage := None\<rparr> =
      ready_state\<lparr>isLoading := True\<rparr>"
    by (simp add: ready_system_def ready_state_def initial_state_def)
  have tr: "length (tasks ready_system) = 0"
    by (simp add: ready_system_def)
  from submission_transitions[of ready_system good_reader image_endpoint] r
  have "ui (handleGenerate_begin ready_system) =
          (ui ready_system)\<lparr>isLoading := True, error := None, generatedImage := None\<rparr>"
    and p1: "panels (ui (handleGenerate_begin ready_system)) = [LoadingPanel]"
    and "length (tasks (handleGenerate_begin ready_system)) = Suc (length (tasks ready_system))"
    by blast+
  then have a: "ui (handleGenerate_begin ready_system) = ready_state\<lparr>isLoading := True\<rparr>"
    and l: "length (tasks (handleGenerate_begin ready_system)) = 1"
    by (simp_all only: eq tr One_nat_def)
  have b: "prompt (view succeeded_blank_system) = []"
    and nb: "\<not> isLoading (ui succeeded_blank_system)"
    and ub: "ui succeeded_blank_system = succeeded_blank_state"
    and gi: "generatedImage (ui succeeded_blank_system) = Some ''data:image/png;base64,Rmlyc3Q=''"
    by (simp_all add: succeeded_blank_system_def succeeded_blank_state_def blank_prompt_state_def
        ready_state_def initial_state_def)
  have gi': "generatedImage (ui succeeded_blank_system) = Some ''data:image/png;base64,Rmlyc3Q=''"
    by (simp add: gi)
  from submission_transitions[of succeeded_blank_system good_reader image_endpoint] b nb
  have m0: "handleGenerate_begin succeeded_blank_system =
       succeeded_blank_system\<lparr>ui := (ui succeeded_blank_system)
         \<lparr>error := Some ''Please provide a base image, a logo image, and a prompt.''\<rparr>\<rparr>"
    and s: "snd (handleGenerate good_reader image_endpoint (view succeeded_blank_system)) = []"
    and p0: "panels (ui (handleGenerate_begin succeeded_blank_system)) =
             ErrorPanel ''Please provide a base image, a logo image, and a prompt.'' #
             (case generatedImage (ui succeeded_blank_system) of
                None \<Rightarrow> []
              | Some u \<Rightarrow> if u = [] then [] else [ResultPanel u])"
    by blast+
  from m0 have m: "handleGenerate_begin succeeded_blank_system =
       succeeded_blank_system\<lparr>ui := succeeded_blank_state
         \<lparr>error := Some ''Please provide a base image, a logo image, and a prompt.''\<rparr>\<rparr>"
    by (simp only: ub)
  have "(case generatedImage (ui succeeded_blank_system) of
                None \<Rightarrow> []
              | Some u \<Rightarrow> if u = [] then [] else [ResultPanel u]) =
        [ResultPanel ''data:image/png;base64,Rmlyc3Q='']"
    by (simp add: gi')
  with p0 have p2: "panels (ui (handleGenerate_begin succeeded_blank_system)) =
       [ErrorPanel ''Please provide a base image, a logo image, and a prompt.'',
        ResultPanel ''data:image/png;base64,Rmlyc3Q='']"
    by (simp only:)
  have i: "baseImage (view initial_system) = None"
    by (simp add: initial_system_def initial_state_def)
  with submission_transitions[of initial_system good_reader image_endpoint]
  have c: "step Click initial_system = initial_system"
    by blast
  from r n a p1 l b nb m s p2 i c show ?thesis by blast
qed

section \<open>Files over the size limit\<close>

text \<open>
  Claim C6 as stated does not hold on the drag-and-drop path. A dropped file of
  5,000,000 bytes whose declared type is \<^verbatim>\<open>application/pdf\<close> fails the type test first:
  the handler returns without an alert, so no oversize error is signalled.
\<close>

theorem large_pdf_dropped_silently:
  "file_size large_pdf > 4 * 1024 * 1024
   \<and> alerts idle_uploader = []
   \<and> handleDrop good_reader setBaseImage (Some large_pdf) idle_uploader = idle_uploader"
  by (simp add: large_pdf_def handleDrop_def idle_uploader_def)

text \<open>
  Claim C6, amended. For every candidate file whose declared size exceeds
  4 * 1024 * 1024 bytes, both handlers start no read and do not call
  \<^verbatim>\<open>onImageUpload\<close>, so no preview is produced and the selection stays as it is.
  \<^verbatim>\<open>handleFileChange\<close> always shows the oversize alert; \<^verbatim>\<open>handleDrop\<close> shows it when
  the declared type starts with \<^verbatim>\<open>image/\<close> and otherwise does nothing at all.
\<close>

theorem oversize_rejected_unread:
  assumes "file_size f > 4 * 1024 * 1024"
  shows "handleFileChange readAsDataURL onImageUpload (Some f) w =
           w\<lparr>alerts := alerts w @ [''File size exceeds 4MB. Please choose a smaller file.'']\<rparr>
         \<and> handleDrop readAsDataURL onImageUpload (Some f) w =
           (if prefix ''image/'' (file_type f)
            then w\<lparr>alerts := alerts w @ [''File size exceeds 4MB. Please choose a smaller file.'']\<rparr>
            else w)
         \<and> reads (handleFileChange readAsDataURL onImageUpload (Some f) w) = reads w
         \<and> owner (handleFileChange readAsDataURL onImageUpload (Some f) w) = owner w
         \<and> reads (handleDrop readAsDataURL onImageUpload (Some f) w) = reads w
         \<and> owner (handleDrop readAsDataURL onImageUpload (Some f) w) = owner w"
  using assms by (simp add: handleFileChange_def handleDrop_def oversize_alert_def)

theorem oversize_rejected_unread_witness:
  "file_size large_png > 4 * 1024 * 1024
   \<and> handleFileChange good_reader setBaseImage (Some large_png) idle_uploader =
       idle_uploader\<lparr>alerts := [''File size exceeds 4MB. Please choose a smaller file.'']\<rparr>
   \<and> handleDrop good_reader setBaseImage (Some large_png) idle_uploader =
       idle_uploader\<lparr>alerts := [''File size exceeds 4MB. Please choose a smaller file.'']\<rparr>
   \<and> reads (handleDrop good_reader setBaseImage (Some large_png) idle_uploader) = []
   \<and> owner (handleDrop good_reader setBaseImage (Some large_png) idle_uploader) = initial_state"
proof -
  have h: "file_size large_png > 4 * 1024 * 1024"
    by (simp add: large_png_def)
  have t: "prefix ''image/'' (file_type large_png)"
    by (simp add: large_png_def)
  have a: "alerts idle_uploader = []" "reads idle_uploader = []" "owner idle_uploader = initial_state"
    by (simp_all add: idle_uploader_def)
  from oversize_rejected_unread[OF h, of good_reader setBaseImage idle_uploader] h t a
  show ?thesis by simp
qed

section \<open>The two media-type policies\<close>

lemma accept_tokens:
  "map trim (split_comma accept) = [''image/png'', ''image/jpeg'', ''image/webp'']"
  by (simp add: accept_def trim_def)

text \<open>
  Claim C8. The picker filter lets through exactly the files whose declared type is
  \<^verbatim>\<open>image/png\<close>, \<^verbatim>\<open>image/jpeg\<close> or \<^verbatim>\<open>image/webp\<close>. \<^verbatim>\<open>handleDrop\<close> takes a file in
  exactly when its declared type starts with \<^verbatim>\<open>image/\<close> and its size is within the
  limit. A small \<^verbatim>\<open>image/gif\<close> file is taken in by the drop handler and excluded by the
  picker filter.
\<close>

theorem intake_policies_differ:
  "(picker_filter f \<longleftrightarrow> file_type f \<in> {''image/png'', ''image/jpeg'', ''image/webp''})
   \<and> (drop_accepts readAsDataURL onImageUpload w f \<longleftrightarrow>
        prefix ''image/'' (file_type f) \<and> file_size f \<le> 4 * 1024 * 1024)
   \<and> drop_accepts readAsDataURL onImageUpload w anim_gif
   \<and> \<not> picker_filter anim_gif"
  by (auto simp: picker_filter_def accept_tokens drop_accepts_def handleDrop_def anim_gif_def)

section \<open>Image changes leave the workflow fields alone\<close>

text \<open>
  Claim C9. With \<^verbatim>\<open>onImageUpload\<close> bound to \<^verbatim>\<open>setBaseImage\<close> (or
  \<^verbatim>\<open>setLogoImage\<close>), as \<^verbatim>\<open>App\<close> binds it, each handler of the uploader leaves the
  parent state as it was except for that one image slot: the loading flag, the error
  message, the generated image, the prompt and the other slot are unchanged. As an event
  of the session it changes neither the tasks in progress nor the requests sent.
\<close>

theorem image_change_frame:
  "owner (handleRemove setBaseImage w) = (owner w)\<lparr>baseImage := None\<rparr>
   \<and> owner (handleRemove setLogoImage w) = (owner w)\<lparr>logoImage := None\<rparr>
   \<and> owner (handleFileChange readAsDataURL setBaseImage c w) =
       (owner w)\<lparr>baseImage := baseImage (owner (handleFileChange readAsDataURL setBaseImage c w))\<rparr>
   \<and> owner (handleFileChange readAsDataURL setLogoImage c w) =
       (owner w)\<lparr>logoImage := logoImage (owner (handleFileChange readAsDataURL setLogoImage c w))\<rparr>
   \<and> owner (handleDrop readAsDataURL setBaseImage c w) =
       (owner w)\<lparr>baseImage := baseImage (owner (handleDrop readAsDataURL setBaseImage c w))\<rparr>
   \<and> owner (handleDrop readAsDataURL setLogoImage c w) =
       (owner w)\<lparr>logoImage := logoImage (owner (handleDrop readAsDataURL setLogoImage c w))\<rparr>
   \<and> step (BaseUpload v) sys = sys\<lparr>ui := (ui sys)\<lparr>baseImage := v\<rparr>\<rparr>
   \<and> step (LogoUpload v) sys = sys\<lparr>ui := (ui sys)\<lparr>logoImage := v\<rparr>\<rparr>"
  by (simp add: handleRemove_def handleFileChange_def handleDrop_def setters split: option.splits)

section \<open>Rejections of the service are strings\<close>

text \<open>
  Claim C10. Whenever \<^verbatim>\<open>generateEditedImage\<close> rejects, the rejection value \<open>v\<close> is a
  string and not an \<^verbatim>\<open>Error\<close>: the message of the error the remote call threw, the
  fixed unknown-error text when it threw something that is not an \<^verbatim>\<open>Error\<close>, or the
  no-image text when the response had no inline image. So in the \<^verbatim>\<open>catch\<close> clause of
  \<^verbatim>\<open>handleGenerate\<close> the test \<^verbatim>\<open>err instanceof Error\<close> is false and the error
  message stored is \<^verbatim>\<open>String(err)\<close>.
\<close>

theorem rejection_is_plain_string:
  assumes "snd (generateEditedImage generateContent b l p) = Inl v"
  shows "\<not> instanceof_Error v
    \<and> v = JsString (js_String v)
    \<and> js_String v =
        (case generateContent (build_request b l p) of
           Inl e \<Rightarrow> if instanceof_Error e then message e
                    else ''An unknown error occurred while generating the image.''
         | Inr resp \<Rightarrow> ''No image was generated in the response.'')
    \<and> handleGenerate_settle (Inl v) s = s\<lparr>error := Some (js_String v), isLoading := False\<rparr>"
  using assms
  by (auto simp: generateEditedImage_def generateEditedImage_resume_def
      generateEditedImage_catch_def handleGenerate_settle_def setters Let_def
      split: sum.splits option.splits)

theorem rejection_is_plain_string_witness:
  "snd (generateEditedImage caption_endpoint person_encoded logo_encoded ''put the logo on the shirt'')
     = Inl (JsString ''No image was generated in the response.'')
   \<and> \<not> instanceof_Error (JsString ''No image was generated in the response.'')
   \<and> handleGenerate_settle (Inl (JsString ''No image was generated in the response.'')) ready_state =
       ready_state\<lparr>error := Some ''No image was generated in the response.'', isLoading := False\<rparr>"
proof -
  have "\<forall>x\<in>set (response_parts caption_response). inlineData x = None"
    by (simp add: response_parts_def caption_response_def caption_part_def)
  then have h: "snd (generateEditedImage caption_endpoint person_encoded logo_encoded
      ''put the logo on the shirt'') = Inl (JsString ''No image was generated in the response.'')"
    by (simp add: generateEditedImage_def caption_endpoint_def resume_no_image)
  from rejection_is_plain_string[OF h, of ready_state] h show ?thesis by simp
qed

section \<open>One submission at a time\<close>

text \<open>
  \<^verbatim>\<open>handleGenerate\<close> as one function is what the transition system does, from a state
  that has just been rendered, when the three \<^verbatim>\<open>await\<close>s of the call end one after the
  other with nothing in between.
\<close>

lemma handleGenerate_by_steps:
  assumes "tasks sys = []" and "view sys = ui sys"
  shows "ui (resolve rd gc (resolve rd gc (resolve rd gc (handleGenerate_begin sys))))
           = fst (handleGenerate rd gc (ui sys))
   \<and> sent (resolve rd gc (resolve rd gc (resolve rd gc (handleGenerate_begin sys))))
           = sent sys @ snd (handleGenerate rd gc (ui sys))
   \<and> tasks (resolve rd gc (resolve rd gc (resolve rd gc (handleGenerate_begin sys)))) = []"
proof (cases "baseImage (view sys) = None \<or> logoImage (view sys) = None \<or> prompt (view sys) = []")
  case True
  then have "baseImage (ui sys) = None \<or> logoImage (ui sys) = None \<or> prompt (ui sys) = []"
    by (simp add: assms(2))
  from begin_missing[OF True] handleGenerate_missing[OF this, of rd gc] assms
  show ?thesis by (simp add: resolve_def)
next
  case False
  then obtain b l where
    bl: "baseImage (view sys) = Some b" "logoImage (view sys) = Some l" "prompt (view sys) \<noteq> []"
    by auto
  have b0: "handleGenerate_begin sys =
      sys\<lparr>ui := (ui sys)\<lparr>isLoading := True, error := None, generatedImage := None\<rparr>,
          tasks := [AwaitBase (file b) (file l) (prompt (ui sys))]\<rparr>"
    using begin_ready[OF bl] assms by simp
  from bl have bl': "baseImage (ui sys) = Some b" "logoImage (ui sys) = Some l" "prompt (ui sys) \<noteq> []"
    by (simp_all add: assms(2))
  show ?thesis
  proof (cases "fileToBase64 (file b) (rd (file b))")
    case (Inl e)
    then show ?thesis using bl' b0
      by (simp add: resolve_def index_def handleGenerate_end_def handleGenerate_def
          handleGenerate_try_def setters handleGenerate_settle_def)
  next
    case eb: (Inr eb)
    show ?thesis
    proof (cases "fileToBase64 (file l) (rd (file l))")
      case (Inl e)
      then show ?thesis using bl' b0 eb
        by (simp add: resolve_def index_def handleGenerate_end_def handleGenerate_def
            handleGenerate_try_def setters handleGenerate_settle_def)
    next
      case (Inr el)
      then show ?thesis using bl' b0 eb
        by (simp add: resolve_def index_def handleGenerate_end_def handleGenerate_def
            handleGenerate_try_def setters handleGenerate_settle_def generateEditedImage_def
            Let_def)
    qed
  qed
qed

lemma short_list: "length xs \<le> 1 \<Longrightarrow> xs = [] \<or> (\<exists>t. xs = [t])"
  by (cases xs) auto

lemma single_flight_Click:
  "single_flight sys \<Longrightarrow> rendered_loading sys \<Longrightarrow> single_flight (step Click sys)"
  by (auto simp: single_flight_def rendered_loading_def button_disabled_def
      handleGenerate_begin_def setters split: option.splits)

lemma single_flight_Render:
  "single_flight sys \<Longrightarrow> single_flight (step Render sys) \<and> rendered_loading (step Render sys)"
  by (auto simp: single_flight_def rendered_loading_def)

lemma single_flight_end:
  "single_flight sys \<Longrightarrow> i < length (tasks sys) \<Longrightarrow>
   single_flight (handleGenerate_end i outcome sys)"
  by (auto simp: single_flight_def handleGenerate_end_def handleGenerate_settle_def setters
      dest!: short_list split: sum.splits)

lemma single_flight_update:
  "single_flight sys \<Longrightarrow> single_flight (sys\<lparr>tasks := (tasks sys)[i := t]\<rparr>)"
  "single_flight sys \<Longrightarrow> single_flight (sys\<lparr>tasks := (tasks sys)[i := t], sent := rs\<rparr>)"
  by (auto simp: single_flight_def)

lemma single_flight_ReadDone:
  "single_flight sys \<Longrightarrow> single_flight (step (ReadDone i outcome) sys)"
  by (auto simp: index_def single_flight_end single_flight_update
      split: option.splits task.splits sum.splits if_splits)

lemma single_flight_RemoteDone:
  "single_flight sys \<Longrightarrow> single_flight (step (RemoteDone i outcome) sys)"
  by (auto simp: index_def single_flight_end split: option.splits task.splits if_splits)

lemma rendered_loading_end:
  "single_flight sys \<Longrightarrow> i < length (tasks sys) \<Longrightarrow>
   rendered_loading (handleGenerate_end i outcome sys)"
  by (auto simp: single_flight_def rendered_loading_def handleGenerate_end_def dest!: short_list)

lemma rendered_loading_ReadDone:
  "single_flight sys \<Longrightarrow> rendered_loading sys \<Longrightarrow> rendered_loading (step (ReadDone i outcome) sys)"
  by (auto simp: index_def rendered_loading_end
      split: option.splits task.splits sum.splits if_splits)
     (auto simp: rendered_loading_def)

lemma rendered_loading_RemoteDone:
  "single_flight sys \<Longrightarrow> rendered_loading sys \<Longrightarrow> rendered_loading (step (RemoteDone i outcome) sys)"
  by (auto simp: index_def rendered_loading_end split: option.splits task.splits if_splits)

text \<open>
  One event of a sequence with a render between any two clicks keeps both invariants;
  \<open>p\<close> and \<open>q\<close> say whether a click is pending before and after it.
\<close>

lemma disciplined_step:
  assumes "single_flight sys" and "p \<or> rendered_loading sys"
    and "render_between_clicks p (e # es)"
  shows "\<exists>q. single_flight (step e sys) \<and> (q \<or> rendered_loading (step e sys))
           \<and> render_between_clicks q es"
proof (cases e)
  case Click
  with assms(3) have np: "\<not> p" and rest: "render_between_clicks True es"
    by simp_all
  from np assms(2) have "rendered_loading sys" by blast
  from single_flight_Click[OF assms(1) this] Click have "single_flight (step e sys)"
    by (simp only:)
  with rest show ?thesis by blast
next
  case Render
  with assms(3) have rest: "render_between_clicks False es"
    by simp
  from single_flight_Render[OF assms(1)] Render
  have "single_flight (step e sys) \<and> rendered_loading (step e sys)"
    by (simp only:)
  with rest show ?thesis by blast
next
  case (ReadDone i outcome)
  with assms have "single_flight (step e sys) \<and> (p \<or> rendered_loading (step e sys))
      \<and> render_between_clicks p es"
    by (auto simp only: single_flight_ReadDone rendered_loading_ReadDone
        render_between_clicks.simps event.case)
  then show ?thesis by blast
next
  case (RemoteDone i outcome)
  with assms have "single_flight (step e sys) \<and> (p \<or> rendered_loading (step e sys))
      \<and> render_between_clicks p es"
    by (auto simp only: single_flight_RemoteDone rendered_loading_RemoteDone
        render_between_clicks.simps event.case)
  then show ?thesis by blast
next
  case (BaseUpload v)
  with assms have "single_flight (step e sys) \<and> (p \<or> rendered_loading (step e sys))
      \<and> render_between_clicks p es"
    by (auto simp: single_flight_def rendered_loading_def setters)
  then show ?thesis by blast
next
  case (LogoUpload v)
  with assms have "single_flight (step e sys) \<and> (p \<or> rendered_loading (step e sys))
      \<and> render_between_clicks p es"
    by (auto simp: single_flight_def rendered_loading_def setters)
  then show ?thesis by blast
next
  case (PromptChange v)
  with assms have "single_flight (step e sys) \<and> (p \<or> rendered_loading (step e sys))
      \<and> render_between_clicks p es"
    by (auto simp: single_flight_def rendered_loading_def setters)
  then show ?thesis by blast
qed

lemma disciplined_run:
  "single_flight sys \<Longrightarrow> p \<or> rendered_loading sys \<Longrightarrow> render_between_clicks p es \<Longrightarrow>
   single_flight (run es sys)"
proof (induction es arbitrary: sys p)
  case Nil
  then show ?case by simp
next
  case (Cons e es)
  from disciplined_step[OF Cons.prems] obtain q where
    "single_flight (step e sys)" "q \<or> rendered_loading (step e sys)" "render_between_clicks q es"
    by blast
  from Cons.IH[OF this] show ?case by simp
qed

lemma disciplined_run_click:
  "single_flight sys \<Longrightarrow> p \<or> rendered_loading sys \<Longrightarrow>
   render_between_clicks p (es @ [Click]) \<Longrightarrow> rendered_loading (run es sys)"
proof (induction es arbitrary: sys p)
  case Nil
  then show ?case by simp
next
  case (Cons e es)
  from Cons.prems(3) have "render_between_clicks p (e # (es @ [Click]))" by simp
  from disciplined_step[OF Cons.prems(1,2) this] obtain q where
    "single_flight (step e sys)" "q \<or> rendered_loading (step e sys)"
    "render_between_clicks q (es @ [Click])"
    by blast
  from Cons.IH[OF this] show ?case by simp
qed

lemma initial_invariants: "single_flight initial_system" "rendered_loading initial_system"
  by (simp_all add: single_flight_def rendered_loading_def initial_system_def initial_state_def)

text \<open>
  Claim C7 as stated does not hold. \<^verbatim>\<open>handleGenerate\<close> has no test of the loading flag,
  and the \<^verbatim>\<open>disabled\<close> attribute is that of the last render. After one click the loading
  flag is set and one call is in progress; a second click that arrives before the
  component is rendered again passes the button and the guard and starts a second call.
  When the file reads of both calls have ended, two requests have been sent and both are
  awaited at the same time.
\<close>

theorem second_click_before_render_overlaps:
  "isLoading (ui (run submit_once initial_system))
   \<and> length (tasks (run submit_once initial_system)) = 1
   \<and> step Click (run submit_once initial_system) \<noteq> run submit_once initial_system
   \<and> length (tasks (step Click (run submit_once initial_system))) = 2
   \<and> length (filter awaits_remote (tasks (run submit_twice initial_system))) = 2
   \<and> length (sent (run submit_twice initial_system)) = 2"
proof -
  let ?t = "AwaitBase person_png logo_jpeg ''put the logo on the shirt''"
  let ?r = "build_request person_encoded logo_encoded ''put the logo on the shirt''"
  have a: "isLoading (ui (run submit_once initial_system))"
    and b: "length (tasks (run submit_once initial_system)) = 1"
    by (simp_all add: run_submit_once)
  have c: "tasks (step Click (run submit_once initial_system)) = [?t, ?t]"
    by (simp add: run_submit_once button_disabled_def handleGenerate_begin_def ready_state_def
        initial_state_def person_image_def logo_image_def setters)
  then have d: "length (tasks (step Click (run submit_once initial_system))) = 2"
    by simp
  with b have e: "step Click (run submit_once initial_system) \<noteq> run submit_once initial_system"
    by auto
  have s0: "sent (step Click (run submit_once initial_system)) = []"
    by (simp add: run_submit_once button_disabled_def handleGenerate_begin_def ready_state_def
        initial_state_def person_image_def logo_image_def setters)
  define S where "S = step Click (run submit_once initial_system)"
  have S: "tasks S = [?t, ?t]" "sent S = []"
    using c s0 by (simp_all add: S_def)
  have tw: "run submit_twice initial_system =
      run [ReadDone 0 (good_reader person_png), ReadDone 0 (good_reader logo_jpeg),
           ReadDone 1 (good_reader person_png), ReadDone 1 (good_reader logo_jpeg)] S"
    by (simp add: submit_twice_def run_append S_def)
  have f: "tasks (run submit_twice initial_system) = [AwaitRemote ?r, AwaitRemote ?r]"
    and g: "sent (run submit_twice initial_system) = [?r, ?r]"
    by (simp_all add: tw S index_def encoded_examples)
  from f have h: "length (filter awaits_remote (tasks (run submit_twice initial_system))) = 2"
    by simp
  from g have i: "length (sent (run submit_twice initial_system)) = 2"
    by simp
  from a b d e h i show ?thesis by blast
qed

text \<open>
  Claim C7, amended. In every state reached from the initial one by a sequence of clicks,
  renders, file read and remote call completions, image changes and prompt edits in which
  the component is rendered between any two clicks: at most one call of
  \<^verbatim>\<open>handleGenerate\<close> is in progress, hence at most one request is awaited from the remote
  endpoint; the loading flag is set exactly while a call is in progress; and a further
  click that comes after a render, while the loading flag is set, changes nothing (no
  state change, no new call, no request).
\<close>

theorem single_flight_between_renders:
  assumes "render_between_clicks False es"
  shows "length (tasks (run es initial_system)) \<le> 1
   \<and> length (filter awaits_remote (tasks (run es initial_system))) \<le> 1
   \<and> (isLoading (ui (run es initial_system)) = (tasks (run es initial_system) \<noteq> []))
   \<and> (render_between_clicks False (es @ [Click]) \<and> isLoading (ui (run es initial_system)) \<longrightarrow>
        step Click (run es initial_system) = run es initial_system)"
proof -
  have sf: "single_flight (run es initial_system)"
    using initial_invariants assms by (blast intro: disciplined_run)
  then have len: "length (tasks (run es initial_system)) \<le> 1"
    and load: "isLoading (ui (run es initial_system)) = (tasks (run es initial_system) \<noteq> [])"
    by (simp_all add: single_flight_def)
  have "length (filter awaits_remote (tasks (run es initial_system)))
      \<le> length (tasks (run es initial_system))"
    by (rule length_filter_le)
  with len have remote: "length (filter awaits_remote (tasks (run es initial_system))) \<le> 1"
    by linarith
  have click: "step Click (run es initial_system) = run es initial_system"
    if "render_between_clicks False (es @ [Click]) \<and> isLoading (ui (run es initial_system))"
  proof -
    from that initial_invariants have "rendered_loading (run es initial_system)"
      by (blast intro: disciplined_run_click)
    with that load show ?thesis
      by (simp add: rendered_loading_def button_disabled_def)
  qed
  from len remote load click show ?thesis by blast
qed

theorem single_flight_between_renders_witness:
  "render_between_clicks False submit_rendered
   \<and> render_between_clicks False (submit_rendered @ [Click])
   \<and> isLoading (ui (run submit_rendered initial_system))
   \<and> length (tasks (run submit_rendered initial_system)) = 1
   \<and> step Click (run submit_rendered initial_system) = run submit_rendered initial_system
   \<and> run (submit_rendered @ [Click]) initial_system = run submit_rendered initial_system"
proof -
  have d: "render_between_clicks False submit_rendered"
    and d': "render_between_clicks False (submit_rendered @ [Click])"
    by (simp_all add: submit_rendered_def submit_once_def)
  have l: "isLoading (ui (run submit_rendered initial_system))"
    and t: "length (tasks (run submit_rendered initial_system)) = 1"
    by (simp_all add: run_submit_rendered)
  from single_flight_between_renders[OF d] d' l
  have c: "step Click (run submit_rendered initial_system) = run submit_rendered initial_system"
    by blast
  then have "run (submit_rendered @ [Click]) initial_system = run submit_rendered initial_system"
    by (simp add: run_append)
  with d d' l t c show ?thesis by blast
qed

end
